theory Spec2Isabelle
  imports Main "HOL-Library.Word"
begin

unbundle bit_operations_syntax

section \<open>The Modbus RTU slave of Modbus-tools/mbs.c\<close>

text \<open>
  The slave keeps one global table of 16-bit registers and answers, in an endless loop,
  the requests it receives from the serial line. The serial transport and the reply
  encoder belong to libmodbus, which is linked in and is not part of the repository: the
  model records each call made to it, with its arguments, as an \<open>effect\<close>, and takes
  whatever the library returns to the program as an input of the iteration.
\<close>

subsection \<open>Data\<close>

type_synonym uint8_t = "8 word"
type_synonym uint16_t = "16 word"

text \<open>\<^verbatim>\<open>#define MAX_REG 32\<close>\<close>

definition MAX_REG :: int where
  "MAX_REG = 32"

text \<open>The request structure \<^verbatim>\<open>modbus_request_t\<close>: six bytes laid over the query.\<close>

record modbus_request_t =
  slave_addr :: uint8_t
  fc :: uint8_t
  reg_addr_hi :: uint8_t
  reg_addr_lo :: uint8_t
  reg_val_hi :: uint8_t
  reg_val_lo :: uint8_t

text \<open>
  The response structure \<^verbatim>\<open>modbus_mapping_t\<close> of the library. The slave asks for
  \<^verbatim>\<open>modbus_mapping_new(0,0,MAX_REG,0)\<close>, so only the holding registers have entries;
  \<open>tab_registers\<close> is the one table the slave touches.
\<close>

record modbus_mapping_t =
  tab_registers :: "uint16_t list"

text \<open>
  The memory of the program that outlives an iteration: the global \<^verbatim>\<open>reg_map\<close>.
  \<open>touched\<close> is a ghost log with no counterpart in memory: the indices of
  \<^verbatim>\<open>reg_map\<close> the handlers have dereferenced, oldest first.
\<close>

record slave =
  reg_map :: "uint16_t list"
  touched :: "int list"

text \<open>\<^verbatim>\<open>uint16_t reg_map[MAX_REG];\<close> a global, so zero at program start.\<close>

definition initial_slave :: slave where
  "initial_slave = \<lparr>reg_map = replicate 32 0, touched = []\<rparr>"

text \<open>
  An array subscript outside the array is undefined behaviour in C. The model makes it a
  value: every function that subscripts returns \<open>Inl Out_of_bounds\<close> there.
\<close>

datatype fault = Out_of_bounds

text \<open>The messages handed to \<^verbatim>\<open>syslog\<close>, and the calls into libmodbus that act.\<close>

datatype log_msg =
    Context_failed
  | Connection_failed
  | Rts_mode_failed
  | Rts_delay_failed
  | Receive_failed
  | Mapping_failed
  | Invalid_operation int
  | Reply_failed
  | Exception_reply_failed

datatype effect =
    Syslog log_msg
  | Usage
  | Call_reply modbus_request_t modbus_mapping_t
  | Call_reply_exception modbus_request_t uint16_t
  | Call_mapping_free
  | Call_free

text \<open>
  Modelled from the spec: the exception codes are enumerators of the library's header
  \<^verbatim>\<open>modbus.h\<close>, which is not under src/. The spec fixes their wire values:
  Illegal Function = 0x01, Illegal Data Address = 0x02, Slave or Server Failure = 0x04.
\<close>

definition MODBUS_EXCEPTION_ILLEGAL_FUNCTION :: uint16_t where
  "MODBUS_EXCEPTION_ILLEGAL_FUNCTION = 0x01"

definition MODBUS_EXCEPTION_ILLEGAL_DATA_ADDRESS :: uint16_t where
  "MODBUS_EXCEPTION_ILLEGAL_DATA_ADDRESS = 0x02"

definition MODBUS_EXCEPTION_SLAVE_OR_SERVER_FAILURE :: uint16_t where
  "MODBUS_EXCEPTION_SLAVE_OR_SERVER_FAILURE = 0x04"

subsection \<open>The register handlers\<close>

text \<open>
  \<^verbatim>\<open>int read_reg(int reg_addr, uint16_t* reg_val)\<close>: the result is the return code, the
  value stored through \<^verbatim>\<open>reg_val\<close> and the memory afterwards.
\<close>

definition read_reg :: "int \<Rightarrow> slave \<Rightarrow> fault + (int \<times> uint16_t \<times> slave)" where
  "read_reg reg_addr s =
     (if 0 \<le> reg_addr \<and> reg_addr < int (length (reg_map s))
      then Inr (0, reg_map s ! nat reg_addr, s\<lparr>touched := touched s @ [reg_addr]\<rparr>)
      else Inl Out_of_bounds)"

text \<open>\<^verbatim>\<open>int write_reg(int reg_addr, uint16_t reg_val)\<close>: the return code and the memory.\<close>

definition write_reg :: "int \<Rightarrow> uint16_t \<Rightarrow> slave \<Rightarrow> fault + (int \<times> slave)" where
  "write_reg reg_addr reg_val s =
     (if 0 \<le> reg_addr \<and> reg_addr < int (length (reg_map s))
      then Inr (0, s\<lparr>reg_map := (reg_map s)[nat reg_addr := reg_val],
                      touched := touched s @ [reg_addr]\<rparr>)
      else Inl Out_of_bounds)"

subsection \<open>Decoding the request\<close>

text \<open>
  \<^verbatim>\<open>modbus_request = (modbus_request_t *)&query[header_length-1];\<close> the six bytes of the
  query from offset \<open>header_length - 1\<close> on.
\<close>

definition request_at :: "int \<Rightarrow> uint8_t list \<Rightarrow> fault + modbus_request_t" where
  "request_at header_length query =
     (if 1 \<le> header_length \<and> header_length + 4 < int (length query)
      then (let p = nat (header_length - 1) in
            Inr \<lparr>slave_addr = query ! p, fc = query ! (p + 1),
                 reg_addr_hi = query ! (p + 2), reg_addr_lo = query ! (p + 3),
                 reg_val_hi = query ! (p + 4), reg_val_lo = query ! (p + 5)\<rparr>)
      else Inl Out_of_bounds)"

text \<open>
  \<^verbatim>\<open>reg_addr = (int)modbus_request->reg_addr_hi<<8 | (int)modbus_request->reg_addr_lo;\<close>
  and the same expression on the value bytes, stored into a \<^verbatim>\<open>uint16_t\<close>. In a read
  request the value bytes carry the number of registers asked for.
\<close>

definition decoded_reg_addr :: "modbus_request_t \<Rightarrow> int" where
  "decoded_reg_addr r = push_bit 8 (uint (reg_addr_hi r)) OR uint (reg_addr_lo r)"

definition decoded_reg_val :: "modbus_request_t \<Rightarrow> uint16_t" where
  "decoded_reg_val r = word_of_int (push_bit 8 (uint (reg_val_hi r)) OR uint (reg_val_lo r))"

subsection \<open>The dispatcher\<close>

text \<open>
  The \<^verbatim>\<open>switch (operation)\<close> of the main loop. It starts from \<open>exception_code = 0\<close> and
  yields the exception code, the response structure and the memory as the switch leaves
  them, with the messages it logged.
\<close>

definition dispatch ::
  "int \<Rightarrow> int \<Rightarrow> uint16_t \<Rightarrow> modbus_mapping_t \<Rightarrow> slave
     \<Rightarrow> fault + (uint16_t \<times> modbus_mapping_t \<times> slave \<times> effect list)" where
  "dispatch operation reg_addr reg_val mb_mapping s =
     (if operation = 0x03 \<or> operation = 0x04 then
        (if reg_addr < MAX_REG then
           (case read_reg reg_addr s of
              Inl f \<Rightarrow> Inl f
            | Inr (rc, reg_val', s') \<Rightarrow>
                if rc \<noteq> 0 then
                  Inr (MODBUS_EXCEPTION_SLAVE_OR_SERVER_FAILURE, mb_mapping, s', [])
                else if reg_addr < int (length (tab_registers mb_mapping)) then
                  Inr (0, mb_mapping\<lparr>tab_registers :=
                            (tab_registers mb_mapping)[nat reg_addr := reg_val']\<rparr>, s', [])
                else Inl Out_of_bounds)
         else Inr (MODBUS_EXCEPTION_ILLEGAL_DATA_ADDRESS, mb_mapping, s, []))
      else if operation = 0x06 then
        (if reg_addr < MAX_REG then
           (case write_reg reg_addr reg_val s of
              Inl f \<Rightarrow> Inl f
            | Inr (rc, s') \<Rightarrow>
                if rc \<noteq> 0 then
                  Inr (MODBUS_EXCEPTION_SLAVE_OR_SERVER_FAILURE, mb_mapping, s', [])
                else Inr (0, mb_mapping, s', []))
         else Inr (MODBUS_EXCEPTION_ILLEGAL_DATA_ADDRESS, mb_mapping, s, []))
      else
        Inr (MODBUS_EXCEPTION_ILLEGAL_FUNCTION, mb_mapping, s,
             [Syslog (Invalid_operation operation)]))"

subsection \<open>One received request\<close>

text \<open>
  The \<^verbatim>\<open>else\<close> branch of the loop body, from the decoding to
  \<^verbatim>\<open>modbus_mapping_free\<close>. \<open>mapping_new\<close> is what \<^verbatim>\<open>modbus_mapping_new\<close> returned
  (\<open>None\<close> for \<^verbatim>\<open>NULL\<close>) and \<open>reply_rc\<close> what the reply call returned. The result is
  the memory, the effects in order, and the value \<^verbatim>\<open>main\<close> returned if it did return.
\<close>

definition serve_request ::
  "int \<Rightarrow> modbus_request_t \<Rightarrow> modbus_mapping_t option \<Rightarrow> int \<Rightarrow> slave
     \<Rightarrow> fault + (slave \<times> effect list \<times> int option)" where
  "serve_request own_addr modbus_request mapping_new reply_rc s =
     (let slave_addr' = uint (slave_addr modbus_request);
          operation = uint (fc modbus_request);
          reg_addr = decoded_reg_addr modbus_request;
          reg_val = decoded_reg_val modbus_request
      in
        if slave_addr' \<noteq> own_addr then Inr (s, [], None)
        else
          (case mapping_new of
             None \<Rightarrow> Inr (s, [Syslog Mapping_failed, Call_free], Some (- 1))
           | Some mb_mapping \<Rightarrow>
               (case dispatch operation reg_addr reg_val mb_mapping s of
                  Inl f \<Rightarrow> Inl f
                | Inr (exception_code, mb_mapping', s', logged) \<Rightarrow>
                    if exception_code = 0 then
                      Inr (s',
                           logged @ [Call_reply modbus_request mb_mapping'] @
                           (if reply_rc = - 1 then [Syslog Reply_failed] else []) @
                           [Call_mapping_free],
                           None)
                    else
                      Inr (s',
                           logged @ [Call_reply_exception modbus_request exception_code] @
                           (if reply_rc = - 1 then [Syslog Exception_reply_failed] else []) @
                           [Call_mapping_free],
                           None))))"

subsection \<open>The main loop and the start of the program\<close>

text \<open>
  What the library hands to one turn of the loop: the query \<^verbatim>\<open>modbus_receive\<close> filled
  in (\<open>None\<close> when it returned -1), the result of \<^verbatim>\<open>modbus_mapping_new\<close> and the
  return code of the reply call.
\<close>

record iteration =
  received :: "uint8_t list option"
  mapping_new :: "modbus_mapping_t option"
  reply_rc :: int

definition loop_body ::
  "int \<Rightarrow> int \<Rightarrow> iteration \<Rightarrow> slave \<Rightarrow> fault + (slave \<times> effect list \<times> int option)" where
  "loop_body own_addr header_length it s =
     (case received it of
        None \<Rightarrow> Inr (s, [Syslog Receive_failed], None)
      | Some query \<Rightarrow>
          (case request_at header_length query of
             Inl f \<Rightarrow> Inl f
           | Inr modbus_request \<Rightarrow>
               serve_request own_addr modbus_request (mapping_new it) (reply_rc it) s))"

text \<open>
  \<^verbatim>\<open>while (cont)\<close>: \<open>cont\<close> is 1 and nothing assigns it, so the loop leaves only through
  a \<^verbatim>\<open>return\<close>. The model runs it over the turns the environment supplies; with the
  turns used up and no return, the slave is blocked in \<^verbatim>\<open>modbus_receive\<close> (\<open>None\<close>).
\<close>

fun main_loop ::
  "int \<Rightarrow> int \<Rightarrow> iteration list \<Rightarrow> slave \<Rightarrow> fault + (slave \<times> effect list \<times> int option)" where
  "main_loop own_addr header_length [] s = Inr (s, [], None)"
| "main_loop own_addr header_length (it # its) s =
     (case loop_body own_addr header_length it s of
        Inl f \<Rightarrow> Inl f
      | Inr (s', effs, Some status) \<Rightarrow> Inr (s', effs, Some status)
      | Inr (s', effs, None) \<Rightarrow>
          (case main_loop own_addr header_length its s' of
             Inl f \<Rightarrow> Inl f
           | Inr (s'', effs', status) \<Rightarrow> Inr (s'', effs @ effs', status)))"

text \<open>
  What \<^verbatim>\<open>main\<close> is started with and what the library answers before the loop:
  \<open>argc\<close>, the second argument after \<^verbatim>\<open>atoi\<close>, whether \<^verbatim>\<open>modbus_new_rtu\<close> returned a
  context, the header length, and whether \<^verbatim>\<open>modbus_connect\<close>, \<^verbatim>\<open>modbus_rtu_set_rts\<close>
  and \<^verbatim>\<open>modbus_rtu_set_rts_delay\<close> succeeded.
\<close>

record startup =
  argc :: int
  own_addr_arg :: int
  context_created :: bool
  header_length_got :: int
  connected :: bool
  rts_set :: bool
  rts_delay_set :: bool

text \<open>
  \<^verbatim>\<open>main\<close> up to the loop: the effects and the value returned, \<open>None\<close> when the loop is
  entered. \<^verbatim>\<open>SERIAL_PORT\<close> is "/dev/ttyAMA0", which holds no "USB", and
  \<^verbatim>\<open>RTS_DELAY\<close> is 10, so both RTS calls are made.
\<close>

definition initialise :: "startup \<Rightarrow> effect list \<times> int option" where
  "initialise e =
     (if argc e < 3 then ([Usage], Some 0)
      else if \<not> context_created e then ([Syslog Context_failed], Some (- 1))
      else if \<not> connected e then ([Syslog Connection_failed, Call_free], Some (- 1))
      else if \<not> rts_set e then ([Syslog Rts_mode_failed, Call_free], Some (- 1))
      else if \<not> rts_delay_set e then ([Syslog Rts_delay_failed, Call_free], Some (- 1))
      else ([], None))"

definition main ::
  "startup \<Rightarrow> iteration list \<Rightarrow> slave \<Rightarrow> fault + (slave \<times> effect list \<times> int option)" where
  "main e its s =
     (case initialise e of
        (effs, Some status) \<Rightarrow> Inr (s, effs, Some status)
      | (effs, None) \<Rightarrow>
          (case main_loop (own_addr_arg e) (header_length_got e) its s of
             Inl f \<Rightarrow> Inl f
           | Inr (s', effs', status) \<Rightarrow> Inr (s', effs @ effs', status)))"

subsection \<open>The reply on the wire\<close>

text \<open>
  A reply as the spec describes it: a normal reply carries the slave address, the
  function code and the register payload (for a write, the register address and the value
  written); an exception reply carries the slave address, the function code with its high
  bit set and one exception-code byte.
\<close>

datatype response =
    Read_response uint8_t uint8_t "uint16_t list"
  | Write_response uint8_t uint8_t int uint16_t
  | Exception_response uint8_t uint8_t uint8_t

text \<open>
  Modelled from the spec: \<^verbatim>\<open>modbus_reply\<close> is a function of libmodbus and is not under
  src/. The spec's Response Builder echoes slave address and function code in a normal
  reply and attaches the register payload: for a read, every register requested, in the
  order requested, taken from the response structure it is given; for a write, the
  register address and value of the request. The spec says nothing of a normal reply to
  any other function code (\<open>None\<close>), nor of registers requested beyond the table: the
  slice ends with the table.
\<close>

definition modbus_reply :: "modbus_request_t \<Rightarrow> modbus_mapping_t \<Rightarrow> response option" where
  "modbus_reply req mb_mapping =
     (if fc req = 0x03 \<or> fc req = 0x04 then
        Some (Read_response (slave_addr req) (fc req)
                (take (unat (decoded_reg_val req))
                   (drop (nat (decoded_reg_addr req)) (tab_registers mb_mapping))))
      else if fc req = 0x06 then
        Some (Write_response (slave_addr req) (fc req) (decoded_reg_addr req) (decoded_reg_val req))
      else None)"

text \<open>
  Modelled from the spec: \<^verbatim>\<open>modbus_reply_exception\<close> is a function of libmodbus and is
  not under src/. The spec's exception reply is the slave address, the function code with
  its high bit set (function code | 0x80) and the exception code as one byte.
\<close>

definition modbus_reply_exception :: "modbus_request_t \<Rightarrow> uint16_t \<Rightarrow> response" where
  "modbus_reply_exception req exception_code =
     Exception_response (slave_addr req) (fc req OR 0x80) (ucast exception_code)"

text \<open>The replies a run put on the wire: one for each reply call, in order.\<close>

fun on_wire :: "effect list \<Rightarrow> response option list" where
  "on_wire [] = []"
| "on_wire (Call_reply req mb_mapping # effs) = modbus_reply req mb_mapping # on_wire effs"
| "on_wire (Call_reply_exception req code # effs) =
     Some (modbus_reply_exception req code) # on_wire effs"
| "on_wire (_ # effs) = on_wire effs"

text \<open>
  Two requests that differ in bytes the slave's own code does not look at lead to the same
  calls, but for the request handed on to the reply call. \<open>readdress r\<close> puts \<open>r\<close>
  in that place, so that such runs can be compared.
\<close>

definition readdress :: "modbus_request_t \<Rightarrow> effect \<Rightarrow> effect" where
  "readdress r e =
     (case e of
        Call_reply _ m \<Rightarrow> Call_reply r m
      | Call_reply_exception _ c \<Rightarrow> Call_reply_exception r c
      | _ \<Rightarrow> e)"

subsection \<open>Values for the examples\<close>

text \<open>
  A response structure of \<open>MAX_REG\<close> holding registers, all zero, as the library's manual
  says a successful \<^verbatim>\<open>modbus_mapping_new(0,0,MAX_REG,0)\<close> returns it. The theorems hold
  for any structure of that size; the examples run on this one.
\<close>

definition fresh_mapping :: modbus_mapping_t where
  "fresh_mapping = \<lparr>tab_registers = replicate 32 0\<rparr>"

section \<open>Properties\<close>

subsection \<open>Auxiliary facts\<close>

lemma decoded_reg_addr_nonneg: "0 \<le> decoded_reg_addr r"
  by (simp add: decoded_reg_addr_def)

lemma operation_eq_iff [simp]:
  "(uint (w :: uint8_t) = 3) = (w = 3)"
  "(uint w = 4) = (w = 4)"
  "(uint w = 6) = (w = 6)"
  by (auto simp: word_uint_eq_iff)

lemma take_drop_head:
  "a < length xs \<Longrightarrow> take (Suc k) (drop a xs) = xs ! a # take k (drop (Suc a) xs)"
  by (simp add: Cons_nth_drop_Suc [symmetric])

lemma take_drop_pos:
  "a < length xs \<Longrightarrow> 0 < n \<Longrightarrow> take n (drop a xs) = xs ! a # take (n - 1) (drop (Suc a) xs)"
  by (cases n) (simp_all add: take_drop_head)

text \<open>
  A run over two stretches of turns is the run over the first and, unless \<^verbatim>\<open>main\<close>
  returned there, the run over the second from the memory the first left.
\<close>

lemma main_loop_append:
  "main_loop own_addr header_length (xs @ ys) s =
     (case main_loop own_addr header_length xs s of
        Inl f \<Rightarrow> Inl f
      | Inr (s', effs, Some status) \<Rightarrow> Inr (s', effs, Some status)
      | Inr (s', effs, None) \<Rightarrow>
          (case main_loop own_addr header_length ys s' of
             Inl f \<Rightarrow> Inl f
           | Inr (s'', effs', status) \<Rightarrow> Inr (s'', effs @ effs', status)))"
proof (induction xs arbitrary: s)
  case Nil
  show ?case by (simp split: sum.splits)
next
  case (Cons x xs)
  show ?case
    by (auto simp add: Cons.IH split: sum.splits option.splits)
qed

text \<open>
  With \<open>reg_map\<close> and the response structure of \<open>MAX_REG\<close> entries each, serving a
  request never subscripts outside either, and \<open>reg_map\<close> keeps its length.
\<close>

lemma serve_request_memory_safe:
  assumes "int (length (reg_map s)) = MAX_REG"
    and "alloc = None \<or> (\<exists>m. alloc = Some m \<and> int (length (tab_registers m)) = MAX_REG)"
  shows "\<exists>s' effs status.
           serve_request own_addr req alloc rc s = Inr (s', effs, status) \<and>
           length (reg_map s') = length (reg_map s)"
  using assms decoded_reg_addr_nonneg [of req]
  by (auto simp add: serve_request_def dispatch_def read_reg_def write_reg_def Let_def)

text \<open>The exception codes the slave can hand to the exception reply.\<close>

lemma dispatch_exception_code:
  assumes "dispatch operation reg_addr reg_val mb_mapping s = Inr (code, m', s', logged)"
  shows "code = 0 \<or> code = MODBUS_EXCEPTION_ILLEGAL_FUNCTION \<or>
         code = MODBUS_EXCEPTION_ILLEGAL_DATA_ADDRESS"
    and "Call_reply_exception r c \<notin> set logged"
  using assms
  by (auto simp add: dispatch_def read_reg_def write_reg_def split: if_splits)

lemma serve_request_exception_code:
  assumes "serve_request own_addr req alloc rc s = Inr (s', effs, status)"
    and "Call_reply_exception r c \<in> set effs"
  shows "c = MODBUS_EXCEPTION_ILLEGAL_FUNCTION \<or> c = MODBUS_EXCEPTION_ILLEGAL_DATA_ADDRESS"
proof (cases "uint (slave_addr req) \<noteq> own_addr \<or> alloc = None")
  case True
  with assms show ?thesis
    by (auto simp add: serve_request_def Let_def split: if_splits)
next
  case False
  then obtain m where alloc: "alloc = Some m" and own: "uint (slave_addr req) = own_addr"
    by auto
  from assms(1) alloc own obtain code m' logged
    where d: "dispatch (uint (fc req)) (decoded_reg_addr req) (decoded_reg_val req) m s =
                Inr (code, m', s', logged)"
    by (auto simp add: serve_request_def Let_def split: sum.splits if_splits)
  from assms d alloc own have "c = code \<and> code \<noteq> 0"
    using dispatch_exception_code(2) [OF d, of r c]
    by (auto simp add: serve_request_def Let_def split: if_splits)
  with dispatch_exception_code(1) [OF d] show ?thesis
    by auto
qed

lemma loop_body_exception_code:
  assumes "loop_body own_addr header_length it s = Inr (s', effs, status)"
    and "Call_reply_exception r c \<in> set effs"
  shows "c = MODBUS_EXCEPTION_ILLEGAL_FUNCTION \<or> c = MODBUS_EXCEPTION_ILLEGAL_DATA_ADDRESS"
  using assms
  by (auto simp add: loop_body_def split: option.splits sum.splits
      dest: serve_request_exception_code)

lemma main_loop_exception_code:
  assumes "main_loop own_addr header_length its s = Inr (s', effs, status)"
    and "Call_reply_exception r c \<in> set effs"
  shows "c = MODBUS_EXCEPTION_ILLEGAL_FUNCTION \<or> c = MODBUS_EXCEPTION_ILLEGAL_DATA_ADDRESS"
  using assms
proof (induction its arbitrary: s s' effs status)
  case Nil
  then show ?case by simp
next
  case (Cons it its)
  show ?case
  proof (cases "loop_body own_addr header_length it s")
    case (Inl f)
    with Cons.prems show ?thesis by simp
  next
    case (Inr res)
    obtain s1 effs1 st1 where res: "res = (s1, effs1, st1)"
      by (cases res) auto
    show ?thesis
    proof (cases st1)
      case (Some x)
      with Inr res Cons.prems have "effs = effs1" by simp
      with Inr res Cons.prems(2) show ?thesis
        by (auto dest: loop_body_exception_code)
    next
      case None
      with Inr res Cons.prems(1) obtain s2 effs2 st2
        where rest: "main_loop own_addr header_length its s1 = Inr (s2, effs2, st2)"
          and effs: "effs = effs1 @ effs2"
        by (auto split: sum.splits)
      from Cons.prems(2) effs
      consider "Call_reply_exception r c \<in> set effs1" | "Call_reply_exception r c \<in> set effs2"
        by auto
      then show ?thesis
      proof cases
        case 1
        with Inr res show ?thesis by (auto dest: loop_body_exception_code)
      next
        case 2
        with rest show ?thesis by (rule Cons.IH)
      qed
    qed
  qed
qed

lemma initialise_no_reply:
  "initialise e = (effs, status) \<Longrightarrow> Call_reply_exception r c \<notin> set effs"
  by (auto simp add: initialise_def split: if_splits)

lemma main_exception_code:
  assumes "main e its s = Inr (s', effs, status)"
    and "Call_reply_exception r c \<in> set effs"
  shows "c = MODBUS_EXCEPTION_ILLEGAL_FUNCTION \<or> c = MODBUS_EXCEPTION_ILLEGAL_DATA_ADDRESS"
proof (cases "initialise e")
  case (Pair effs0 st0)
  show ?thesis
  proof (cases st0)
    case (Some x)
    with Pair assms show ?thesis
      by (auto simp add: main_def dest: initialise_no_reply)
  next
    case None
    with Pair assms(1) obtain effs1
      where "main_loop (own_addr_arg e) (header_length_got e) its s = Inr (s', effs1, status)"
        and "effs = effs0 @ effs1"
      by (auto simp add: main_def split: sum.splits)
    with assms(2) Pair show ?thesis
      by (auto dest: initialise_no_reply main_loop_exception_code)
  qed
qed

lemma on_wire_exception:
  "Some (Exception_response a f k) \<in> set (on_wire effs) \<Longrightarrow>
     \<exists>r c. Call_reply_exception r c \<in> set effs \<and> k = ucast c"
  by (induction effs rule: on_wire.induct)
     (auto simp add: modbus_reply_def modbus_reply_exception_def split: if_splits)

subsection \<open>The scenarios of the spec, end to end\<close>

text \<open>
  Scenarios A to E of the spec as one run of \<^verbatim>\<open>main\<close>: slave 5 starts, receives the
  five frames (the last two bytes of each stand for the CRC, which the slave does not look
  at) and is then blocked in \<^verbatim>\<open>modbus_receive\<close>. Register 10 ends as 1234 and four
  replies went out; the frame for slave 9 got none.
\<close>

lemma scenarios_A_to_E:
  "map_sum id (\<lambda>(s', effs, status). (reg_map s', on_wire effs, status))
     (main \<lparr>argc = 3, own_addr_arg = 5, context_created = True, header_length_got = 1,
            connected = True, rts_set = True, rts_delay_set = True\<rparr>
        [\<lparr>received = Some [5, 0x06, 0, 10, 0x04, 0xD2, 0, 0], mapping_new = Some fresh_mapping,
          reply_rc = 8\<rparr>,
         \<lparr>received = Some [5, 0x03, 0, 10, 0, 1, 0, 0], mapping_new = Some fresh_mapping,
          reply_rc = 7\<rparr>,
         \<lparr>received = Some [5, 0x03, 0, 40, 0, 1, 0, 0], mapping_new = Some fresh_mapping,
          reply_rc = 5\<rparr>,
         \<lparr>received = Some [9, 0x06, 0, 0, 0, 1, 0, 0], mapping_new = Some fresh_mapping,
          reply_rc = 8\<rparr>,
         \<lparr>received = Some [5, 0x07, 0, 0, 0, 0, 0, 0], mapping_new = Some fresh_mapping,
          reply_rc = 5\<rparr>]
        initial_slave)
   = Inr ((replicate 32 0)[10 := 1234],
          [Some (Write_response 5 0x06 10 1234),
           Some (Read_response 5 0x03 [1234]),
           Some (Exception_response 5 0x83 0x02),
           Some (Exception_response 5 0x87 0x01)],
          None)"
  by (simp add: main_def initialise_def loop_body_def request_at_def serve_request_def
      dispatch_def read_reg_def write_reg_def decoded_reg_addr_def decoded_reg_val_def
      modbus_reply_def modbus_reply_exception_def MAX_REG_def initial_slave_def
      fresh_mapping_def Let_def take_drop_head
      MODBUS_EXCEPTION_ILLEGAL_DATA_ADDRESS_def MODBUS_EXCEPTION_ILLEGAL_FUNCTION_def)

subsection \<open>Write single register\<close>

text \<open>
  C1. A write-single-register request (function code 0x06) addressed to the slave, with a
  register address \<open>a < MAX_REG\<close> and a value \<open>v\<close>: afterwards \<open>reg_map\<close> holds
  \<open>v\<close> at index \<open>a\<close> and nothing else of it has changed; the slave makes the normal
  reply call on the request, and the reply echoes the function code, the register address
  and \<open>v\<close>.
\<close>

theorem write_single_register_stores_and_echoes:
  assumes "uint (slave_addr req) = own_addr"
    and "fc req = 0x06"
    and "decoded_reg_addr req < MAX_REG"
    and "int (length (reg_map s)) = MAX_REG"
  shows "let a = decoded_reg_addr req; v = decoded_reg_val req;
             s' = s\<lparr>reg_map := (reg_map s)[nat a := v], touched := touched s @ [a]\<rparr>
         in serve_request own_addr req (Some m) rc s =
              Inr (s',
                   [Call_reply req m] @ (if rc = - 1 then [Syslog Reply_failed] else []) @
                   [Call_mapping_free], None)
          \<and> reg_map s' ! nat a = v
          \<and> modbus_reply req m = Some (Write_response (slave_addr req) 0x06 a v)"
  using assms decoded_reg_addr_nonneg [of req]
  by (simp add: serve_request_def dispatch_def write_reg_def modbus_reply_def Let_def
      MAX_REG_def)

text \<open>Scenario A of the spec: own address 5, register 10 is set to 1234 = 0x04D2.\<close>

theorem write_single_register_scenario_A:
  "serve_request 5
     \<lparr>slave_addr = 5, fc = 0x06, reg_addr_hi = 0, reg_addr_lo = 10,
      reg_val_hi = 0x04, reg_val_lo = 0xD2\<rparr>
     (Some fresh_mapping) 8 initial_slave =
   Inr (initial_slave\<lparr>reg_map := (replicate 32 0)[10 := 1234], touched := [10]\<rparr>,
        [Call_reply
           \<lparr>slave_addr = 5, fc = 0x06, reg_addr_hi = 0, reg_addr_lo = 10,
            reg_val_hi = 0x04, reg_val_lo = 0xD2\<rparr> fresh_mapping,
         Call_mapping_free], None)
   \<and> (replicate 32 (0 :: uint16_t))[10 := 1234] ! 10 = 1234
   \<and> modbus_reply
        \<lparr>slave_addr = 5, fc = 0x06, reg_addr_hi = 0, reg_addr_lo = 10,
         reg_val_hi = 0x04, reg_val_lo = 0xD2\<rparr> fresh_mapping
       = Some (Write_response 5 0x06 10 1234)"
  using write_single_register_stores_and_echoes
    [where own_addr = 5 and s = initial_slave and m = fresh_mapping and rc = 8
      and req = "\<lparr>slave_addr = 5, fc = 0x06, reg_addr_hi = 0, reg_addr_lo = 10,
                  reg_val_hi = 0x04, reg_val_lo = 0xD2\<rparr>"]
  by (simp add: initial_slave_def MAX_REG_def decoded_reg_addr_def decoded_reg_val_def)

subsection \<open>Register addresses out of range\<close>

text \<open>
  C2. An addressed read (0x03, 0x04) or write (0x06) with a register address
  \<open>a \<ge> MAX_REG\<close>: the memory afterwards is the memory before, so \<open>reg_map\<close> is
  unmodified and, the ghost log being the same, no element of it was read or written; the
  one reply call is the exception reply with Illegal Data Address, which goes on the wire
  as exception code 0x02.
\<close>

theorem out_of_range_address_rejected:
  assumes "uint (slave_addr req) = own_addr"
    and "fc req = 0x03 \<or> fc req = 0x04 \<or> fc req = 0x06"
    and "MAX_REG \<le> decoded_reg_addr req"
  shows "serve_request own_addr req (Some m) rc s =
           Inr (s,
                [Call_reply_exception req MODBUS_EXCEPTION_ILLEGAL_DATA_ADDRESS] @
                (if rc = - 1 then [Syslog Exception_reply_failed] else []) @
                [Call_mapping_free], None)
       \<and> modbus_reply_exception req MODBUS_EXCEPTION_ILLEGAL_DATA_ADDRESS =
           Exception_response (slave_addr req) (fc req OR 0x80) 0x02"
  using assms
  by (auto simp add: serve_request_def dispatch_def modbus_reply_exception_def Let_def
      MODBUS_EXCEPTION_ILLEGAL_DATA_ADDRESS_def)

text \<open>Scenario C of the spec: a read of register 40 is answered by exception(0x83, 0x02).\<close>

theorem out_of_range_address_scenario_C:
  "serve_request 5
     \<lparr>slave_addr = 5, fc = 0x03, reg_addr_hi = 0, reg_addr_lo = 40,
      reg_val_hi = 0, reg_val_lo = 1\<rparr>
     (Some fresh_mapping) 5 initial_slave =
   Inr (initial_slave,
        [Call_reply_exception
           \<lparr>slave_addr = 5, fc = 0x03, reg_addr_hi = 0, reg_addr_lo = 40,
            reg_val_hi = 0, reg_val_lo = 1\<rparr> 0x02,
         Call_mapping_free], None)
   \<and> modbus_reply_exception
        \<lparr>slave_addr = 5, fc = 0x03, reg_addr_hi = 0, reg_addr_lo = 40,
         reg_val_hi = 0, reg_val_lo = 1\<rparr> 0x02
       = Exception_response 5 0x83 0x02"
  using out_of_range_address_rejected
    [where own_addr = 5 and s = initial_slave and m = fresh_mapping and rc = 5
      and req = "\<lparr>slave_addr = 5, fc = 0x03, reg_addr_hi = 0, reg_addr_lo = 40,
                  reg_val_hi = 0, reg_val_lo = 1\<rparr>"]
  by (simp add: MAX_REG_def decoded_reg_addr_def MODBUS_EXCEPTION_ILLEGAL_DATA_ADDRESS_def)

subsection \<open>Reading a register\<close>

text \<open>
  C3, as the spec has it: the payload of the reply to every addressed read with a register
  address \<open>a < MAX_REG\<close> is the value \<open>reg_map\<close> holds at \<open>a\<close>. The reply carries
  as many registers as the request asks for. Register 10 holds 1234: a read of no register
  from 10 is served and its reply has the empty payload, and a read of two registers from
  10 has a payload of two entries; neither payload is the one value 1234.
\<close>

theorem read_payload_is_not_always_the_register:
  "serve_request 5
     \<lparr>slave_addr = 5, fc = 0x03, reg_addr_hi = 0, reg_addr_lo = 10,
      reg_val_hi = 0, reg_val_lo = 0\<rparr>
     (Some fresh_mapping) 5
     \<lparr>reg_map = (replicate 32 0)[10 := 1234], touched = []\<rparr> =
   Inr (\<lparr>reg_map = (replicate 32 0)[10 := 1234], touched = [10]\<rparr>,
        [Call_reply
           \<lparr>slave_addr = 5, fc = 0x03, reg_addr_hi = 0, reg_addr_lo = 10,
            reg_val_hi = 0, reg_val_lo = 0\<rparr>
           \<lparr>tab_registers = (replicate 32 0)[10 := 1234]\<rparr>,
         Call_mapping_free], None)
   \<and> modbus_reply
        \<lparr>slave_addr = 5, fc = 0x03, reg_addr_hi = 0, reg_addr_lo = 10,
         reg_val_hi = 0, reg_val_lo = 0\<rparr>
        \<lparr>tab_registers = (replicate 32 0)[10 := 1234]\<rparr>
       = Some (Read_response 5 0x03 [])
   \<and> serve_request 5
     \<lparr>slave_addr = 5, fc = 0x03, reg_addr_hi = 0, reg_addr_lo = 10,
      reg_val_hi = 0, reg_val_lo = 2\<rparr>
     (Some fresh_mapping) 9
     \<lparr>reg_map = (replicate 32 0)[10 := 1234], touched = []\<rparr> =
   Inr (\<lparr>reg_map = (replicate 32 0)[10 := 1234], touched = [10]\<rparr>,
        [Call_reply
           \<lparr>slave_addr = 5, fc = 0x03, reg_addr_hi = 0, reg_addr_lo = 10,
            reg_val_hi = 0, reg_val_lo = 2\<rparr>
           \<lparr>tab_registers = (replicate 32 0)[10 := 1234]\<rparr>,
         Call_mapping_free], None)
   \<and> modbus_reply
        \<lparr>slave_addr = 5, fc = 0x03, reg_addr_hi = 0, reg_addr_lo = 10,
         reg_val_hi = 0, reg_val_lo = 2\<rparr>
        \<lparr>tab_registers = (replicate 32 0)[10 := 1234]\<rparr>
       = Some (Read_response 5 0x03 [1234, 0])
   \<and> (replicate 32 (0 :: uint16_t))[10 := 1234] ! 10 = 1234"
proof -
  have slice: "take 2 (drop 10 ((replicate 32 (0 :: uint16_t))[10 := 1234])) = [1234, 0]"
    by code_simp
  show ?thesis
    by (simp add: serve_request_def dispatch_def read_reg_def modbus_reply_def Let_def
        MAX_REG_def fresh_mapping_def decoded_reg_addr_def decoded_reg_val_def slice)
qed

text \<open>
  C3, amended. An addressed read (0x03 or 0x04) with a register address
  \<open>a < MAX_REG\<close>: the slave makes the normal reply call with a response structure that
  holds, at index \<open>a\<close>, the value \<open>reg_map\<close> has there; \<open>reg_map\<close> is unchanged; the
  same request served again from the memory the first left behind makes the same calls.
  When the request asks for at least one register, the first entry of the reply's payload,
  the one for register \<open>a\<close>, is that value; when it asks for exactly one, the payload is
  that value and nothing else.
\<close>

theorem read_register_reports_map:
  assumes "uint (slave_addr req) = own_addr"
    and "fc req = 0x03 \<or> fc req = 0x04"
    and "decoded_reg_addr req < MAX_REG"
    and "int (length (reg_map s)) = MAX_REG"
    and "int (length (tab_registers m)) = MAX_REG"
  shows "let a = decoded_reg_addr req;
             s' = s\<lparr>touched := touched s @ [a]\<rparr>;
             m' = m\<lparr>tab_registers := (tab_registers m)[nat a := reg_map s ! nat a]\<rparr>;
             effs = [Call_reply req m'] @ (if rc = - 1 then [Syslog Reply_failed] else []) @
                    [Call_mapping_free]
         in serve_request own_addr req (Some m) rc s = Inr (s', effs, None)
          \<and> tab_registers m' ! nat a = reg_map s ! nat a
          \<and> reg_map s' = reg_map s
          \<and> serve_request own_addr req (Some m) rc s' =
              Inr (s'\<lparr>touched := touched s' @ [a]\<rparr>, effs, None)
          \<and> (decoded_reg_val req \<noteq> 0 \<longrightarrow>
               (\<exists>rest. modbus_reply req m' =
                          Some (Read_response (slave_addr req) (fc req)
                                  (reg_map s ! nat a # rest))))
          \<and> (decoded_reg_val req = 1 \<longrightarrow>
               modbus_reply req m' =
                 Some (Read_response (slave_addr req) (fc req) [reg_map s ! nat a]))"
proof -
  have "0 \<le> decoded_reg_addr req"
    by (rule decoded_reg_addr_nonneg)
  moreover have "0 < unat (decoded_reg_val req)" if "decoded_reg_val req \<noteq> 0"
    using that by (simp add: unat_gt_0)
  ultimately show ?thesis
    using assms
    by (auto simp add: serve_request_def dispatch_def read_reg_def modbus_reply_def Let_def
        MAX_REG_def take_drop_pos)
qed

text \<open>Scenario B of the spec: register 10 holds 1234 and is read back as [1234].\<close>

theorem read_register_scenario_B:
  "serve_request 5
     \<lparr>slave_addr = 5, fc = 0x03, reg_addr_hi = 0, reg_addr_lo = 10,
      reg_val_hi = 0, reg_val_lo = 1\<rparr>
     (Some fresh_mapping) 7
     \<lparr>reg_map = (replicate 32 0)[10 := 1234], touched = []\<rparr> =
   Inr (\<lparr>reg_map = (replicate 32 0)[10 := 1234], touched = [10]\<rparr>,
        [Call_reply
           \<lparr>slave_addr = 5, fc = 0x03, reg_addr_hi = 0, reg_addr_lo = 10,
            reg_val_hi = 0, reg_val_lo = 1\<rparr>
           \<lparr>tab_registers = (replicate 32 0)[10 := 1234]\<rparr>,
         Call_mapping_free], None)
   \<and> modbus_reply
        \<lparr>slave_addr = 5, fc = 0x03, reg_addr_hi = 0, reg_addr_lo = 10,
         reg_val_hi = 0, reg_val_lo = 1\<rparr>
        \<lparr>tab_registers = (replicate 32 0)[10 := 1234]\<rparr>
       = Some (Read_response 5 0x03 [1234])"
  using read_register_reports_map
    [where own_addr = 5 and m = fresh_mapping and rc = 7
      and s = "\<lparr>reg_map = (replicate 32 0)[10 := 1234], touched = []\<rparr>"
      and req = "\<lparr>slave_addr = 5, fc = 0x03, reg_addr_hi = 0, reg_addr_lo = 10,
                  reg_val_hi = 0, reg_val_lo = 1\<rparr>"]
  by (simp add: fresh_mapping_def MAX_REG_def decoded_reg_addr_def decoded_reg_val_def Let_def)

subsection \<open>Requests for another slave\<close>

text \<open>
  C4. A request whose slave address is not the slave's own is dropped before anything
  else is looked at: whatever its function code and whatever the allocator would have
  returned, the memory is unchanged and there is no effect at all, so no reply call of
  either kind (no Illegal Function exception among them) and no log entry.
\<close>

theorem unaddressed_request_discarded:
  assumes "uint (slave_addr req) \<noteq> own_addr"
  shows "serve_request own_addr req alloc rc s = Inr (s, [], None)"
  using assms by (simp add: serve_request_def Let_def)

text \<open>
  Scenario D of the spec, with a function code the slave does not know: a frame for slave
  9 reaches slave 5.
\<close>

theorem unaddressed_request_scenario_D:
  "serve_request 5
     \<lparr>slave_addr = 9, fc = 0x07, reg_addr_hi = 0, reg_addr_lo = 0,
      reg_val_hi = 0, reg_val_lo = 1\<rparr>
     (Some fresh_mapping) 8 initial_slave = Inr (initial_slave, [], None)"
  using unaddressed_request_discarded
    [where own_addr = 5 and s = initial_slave and alloc = "Some fresh_mapping" and rc = 8
      and req = "\<lparr>slave_addr = 9, fc = 0x07, reg_addr_hi = 0, reg_addr_lo = 0,
                  reg_val_hi = 0, reg_val_lo = 1\<rparr>"]
  by simp

subsection \<open>Unsupported function codes\<close>

text \<open>
  C5. An addressed request whose function code is none of 0x03, 0x04 and 0x06: the
  memory is unchanged, the operation is logged as invalid, and the one reply call is the
  exception reply with Illegal Function, which goes on the wire with the function code
  \<open>fc OR 0x80\<close> and exception code 0x01.
\<close>

theorem unsupported_function_rejected:
  assumes "uint (slave_addr req) = own_addr"
    and "fc req \<noteq> 0x03" and "fc req \<noteq> 0x04" and "fc req \<noteq> 0x06"
  shows "serve_request own_addr req (Some m) rc s =
           Inr (s,
                [Syslog (Invalid_operation (uint (fc req))),
                 Call_reply_exception req MODBUS_EXCEPTION_ILLEGAL_FUNCTION] @
                (if rc = - 1 then [Syslog Exception_reply_failed] else []) @
                [Call_mapping_free], None)
       \<and> modbus_reply_exception req MODBUS_EXCEPTION_ILLEGAL_FUNCTION =
           Exception_response (slave_addr req) (fc req OR 0x80) 0x01"
  using assms
  by (simp add: serve_request_def dispatch_def modbus_reply_exception_def Let_def
      MODBUS_EXCEPTION_ILLEGAL_FUNCTION_def)

text \<open>Scenario E of the spec: function code 0x07 is answered by exception(0x87, 0x01).\<close>

theorem unsupported_function_scenario_E:
  "serve_request 5
     \<lparr>slave_addr = 5, fc = 0x07, reg_addr_hi = 0, reg_addr_lo = 0,
      reg_val_hi = 0, reg_val_lo = 0\<rparr>
     (Some fresh_mapping) 5 initial_slave =
   Inr (initial_slave,
        [Syslog (Invalid_operation 7),
         Call_reply_exception
           \<lparr>slave_addr = 5, fc = 0x07, reg_addr_hi = 0, reg_addr_lo = 0,
            reg_val_hi = 0, reg_val_lo = 0\<rparr> 0x01,
         Call_mapping_free], None)
   \<and> modbus_reply_exception
        \<lparr>slave_addr = 5, fc = 0x07, reg_addr_hi = 0, reg_addr_lo = 0,
         reg_val_hi = 0, reg_val_lo = 0\<rparr> 0x01
       = Exception_response 5 0x87 0x01"
  using unsupported_function_rejected
    [where own_addr = 5 and s = initial_slave and m = fresh_mapping and rc = 5
      and req = "\<lparr>slave_addr = 5, fc = 0x07, reg_addr_hi = 0, reg_addr_lo = 0,
                  reg_val_hi = 0, reg_val_lo = 0\<rparr>"]
  by (simp add: MODBUS_EXCEPTION_ILLEGAL_FUNCTION_def)

subsection \<open>Reading more than one register\<close>

text \<open>
  C6. The spec has the reply to a read of \<open>c\<close> registers from \<open>a\<close> carry the values
  \<open>reg_map\<close> holds at \<open>a\<close>, ..., \<open>a + c - 1\<close>. The read path copies the one register
  \<open>a\<close> into the response structure and nothing more, so the structure handed to the
  reply call holds, at every other index, what the allocator put there. Here registers 10
  and 11 hold 1234 and 5678 and two registers are read from 10: the structure handed on
  has 1234 at 10 and 0 at 11, and the reply built from it carries [1234, 0] where the
  register map has [1234, 5678].
\<close>

theorem read_two_registers_second_is_default:
  "serve_request 5
     \<lparr>slave_addr = 5, fc = 0x03, reg_addr_hi = 0, reg_addr_lo = 10,
      reg_val_hi = 0, reg_val_lo = 2\<rparr>
     (Some fresh_mapping) 9
     \<lparr>reg_map = (replicate 32 0)[10 := 1234, 11 := 5678], touched = []\<rparr> =
   Inr (\<lparr>reg_map = (replicate 32 0)[10 := 1234, 11 := 5678], touched = [10]\<rparr>,
        [Call_reply
           \<lparr>slave_addr = 5, fc = 0x03, reg_addr_hi = 0, reg_addr_lo = 10,
            reg_val_hi = 0, reg_val_lo = 2\<rparr>
           \<lparr>tab_registers = (replicate 32 0)[10 := 1234]\<rparr>,
         Call_mapping_free], None)
   \<and> modbus_reply
        \<lparr>slave_addr = 5, fc = 0x03, reg_addr_hi = 0, reg_addr_lo = 10,
         reg_val_hi = 0, reg_val_lo = 2\<rparr>
        \<lparr>tab_registers = (replicate 32 0)[10 := 1234]\<rparr>
       = Some (Read_response 5 0x03 [1234, 0])
   \<and> map (\<lambda>i. (replicate 32 (0 :: uint16_t))[10 := 1234, 11 := 5678] ! i) [10, 11]
       = [1234, 5678]"
proof -
  have slice: "take 2 (drop 10 ((replicate 32 (0 :: uint16_t))[10 := 1234])) = [1234, 0]"
    by code_simp
  show ?thesis
    by (simp add: serve_request_def dispatch_def read_reg_def modbus_reply_def Let_def
        MAX_REG_def fresh_mapping_def decoded_reg_addr_def decoded_reg_val_def slice)
qed

text \<open>
  The same for every read in range: whatever \<open>reg_map\<close> holds elsewhere, the structure
  handed to the reply call differs from the allocated one at index \<open>a\<close> only.
\<close>

lemma read_copies_one_register:
  assumes "uint (slave_addr req) = own_addr"
    and "fc req = 0x03 \<or> fc req = 0x04"
    and "serve_request own_addr req (Some m) rc s = Inr (s', effs, status)"
    and "Call_reply r m' \<in> set effs"
    and "i \<noteq> nat (decoded_reg_addr req)"
  shows "tab_registers m' ! i = tab_registers m ! i"
  using assms
  by (auto simp add: serve_request_def dispatch_def read_reg_def Let_def
      MODBUS_EXCEPTION_ILLEGAL_DATA_ADDRESS_def split: if_splits)

subsection \<open>Failing to allocate the response structure\<close>

text \<open>
  C7, as the spec has it: after an allocation failure the slave logs it and goes on serving. It
  does not. Startup has succeeded; the first request finds no memory for the response
  structure, and \<^verbatim>\<open>main\<close> returns -1 there: the second request, a write that would
  have been served, changes nothing and gets no reply.
\<close>

theorem allocation_failure_stops_the_slave:
  "main \<lparr>argc = 3, own_addr_arg = 5, context_created = True, header_length_got = 1,
         connected = True, rts_set = True, rts_delay_set = True\<rparr>
     [\<lparr>received = Some [5, 0x06, 0, 10, 0x04, 0xD2, 0, 0], mapping_new = None, reply_rc = 0\<rparr>,
      \<lparr>received = Some [5, 0x06, 0, 10, 0x04, 0xD2, 0, 0], mapping_new = Some fresh_mapping,
       reply_rc = 8\<rparr>]
     initial_slave
   = Inr (initial_slave, [Syslog Mapping_failed, Call_free], Some (- 1))"
  by (simp add: main_def initialise_def loop_body_def request_at_def serve_request_def Let_def)

text \<open>
  C7, amended. Startup has succeeded and \<^verbatim>\<open>main\<close> has gone through any number of
  turns of the loop without returning. When the allocation of the response structure then
  fails for a request addressed to the slave, the failure is logged, the context is freed
  and \<^verbatim>\<open>main\<close> returns -1 at once: no reply is made, the memory is as the earlier
  turns left it, and no later request is served. A failure at startup (no context, no
  connection, RTS mode or RTS delay not set) ends \<^verbatim>\<open>main\<close> with -1 as well.
\<close>

theorem allocation_failure_is_fatal:
  assumes "main e earlier s0 = Inr (s, effs, None)"
    and "received it = Some query"
    and "request_at (header_length_got e) query = Inr req"
    and "uint (slave_addr req) = own_addr_arg e"
    and "mapping_new it = None"
  shows "main e (earlier @ it # later) s0 =
           Inr (s, effs @ [Syslog Mapping_failed, Call_free], Some (- 1))
       \<and> (3 \<le> argc e' \<and>
            \<not> (context_created e' \<and> connected e' \<and> rts_set e' \<and> rts_delay_set e') \<longrightarrow>
            (\<exists>effs'. main e' its' s' = Inr (s', effs', Some (- 1))))"
proof
  obtain effs0 where init: "initialise e = (effs0, None)"
    using assms(1) by (cases "initialise e") (auto simp add: main_def split: option.splits)
  from assms(1) init obtain effs1
    where pre: "main_loop (own_addr_arg e) (header_length_got e) earlier s0 = Inr (s, effs1, None)"
      and effs: "effs = effs0 @ effs1"
    by (auto simp add: main_def split: sum.splits)
  have turn: "main_loop (own_addr_arg e) (header_length_got e) (it # later) s =
                Inr (s, [Syslog Mapping_failed, Call_free], Some (- 1))"
    using assms(2-5) by (simp add: loop_body_def serve_request_def Let_def)
  show "main e (earlier @ it # later) s0 =
          Inr (s, effs @ [Syslog Mapping_failed, Call_free], Some (- 1))"
    by (simp add: main_def init main_loop_append pre turn effs del: main_loop.simps)
  show "3 \<le> argc e' \<and>
          \<not> (context_created e' \<and> connected e' \<and> rts_set e' \<and> rts_delay_set e') \<longrightarrow>
          (\<exists>effs'. main e' its' s' = Inr (s', effs', Some (- 1)))"
    by (auto simp add: main_def initialise_def)
qed

text \<open>
  A write is served and a receive fails, both without ending the loop; the third turn
  finds no memory, and the read after it is never served.
\<close>

theorem allocation_failure_is_fatal_witness:
  "main \<lparr>argc = 3, own_addr_arg = 5, context_created = True, header_length_got = 1,
         connected = True, rts_set = True, rts_delay_set = True\<rparr>
     [\<lparr>received = Some [5, 0x06, 0, 10, 0x04, 0xD2, 0, 0], mapping_new = Some fresh_mapping,
       reply_rc = 8\<rparr>,
      \<lparr>received = None, mapping_new = None, reply_rc = 0\<rparr>,
      \<lparr>received = Some [5, 0x03, 0, 10, 0, 1, 0, 0], mapping_new = None, reply_rc = 0\<rparr>,
      \<lparr>received = Some [5, 0x03, 0, 10, 0, 1, 0, 0], mapping_new = Some fresh_mapping,
       reply_rc = 7\<rparr>]
     initial_slave
   = Inr (\<lparr>reg_map = (replicate 32 0)[10 := 1234], touched = [10]\<rparr>,
          [Call_reply
             \<lparr>slave_addr = 5, fc = 0x06, reg_addr_hi = 0, reg_addr_lo = 10,
              reg_val_hi = 0x04, reg_val_lo = 0xD2\<rparr> fresh_mapping,
           Call_mapping_free,
           Syslog Receive_failed,
           Syslog Mapping_failed, Call_free],
          Some (- 1))
   \<and> (\<exists>effs'.
        main \<lparr>argc = 3, own_addr_arg = 5, context_created = True, header_length_got = 1,
              connected = False, rts_set = True, rts_delay_set = True\<rparr>
          [] initial_slave
        = Inr (initial_slave, effs', Some (- 1)))"
  using allocation_failure_is_fatal
    [where e = "\<lparr>argc = 3, own_addr_arg = 5, context_created = True, header_length_got = 1,
                  connected = True, rts_set = True, rts_delay_set = True\<rparr>"
      and earlier = "[\<lparr>received = Some [5, 0x06, 0, 10, 0x04, 0xD2, 0, 0],
                        mapping_new = Some fresh_mapping, reply_rc = 8\<rparr>,
                      \<lparr>received = None, mapping_new = None, reply_rc = 0\<rparr>]"
      and s0 = initial_slave
      and s = "\<lparr>reg_map = (replicate 32 0)[10 := 1234], touched = [10]\<rparr>"
      and effs = "[Call_reply
                     \<lparr>slave_addr = 5, fc = 0x06, reg_addr_hi = 0, reg_addr_lo = 10,
                      reg_val_hi = 0x04, reg_val_lo = 0xD2\<rparr> fresh_mapping,
                   Call_mapping_free,
                   Syslog Receive_failed]"
      and it = "\<lparr>received = Some [5, 0x03, 0, 10, 0, 1, 0, 0], mapping_new = None,
                   reply_rc = 0\<rparr>"
      and query = "[5, 0x03, 0, 10, 0, 1, 0, 0]"
      and req = "\<lparr>slave_addr = 5, fc = 0x03, reg_addr_hi = 0, reg_addr_lo = 10,
                   reg_val_hi = 0, reg_val_lo = 1\<rparr>"
      and later = "[\<lparr>received = Some [5, 0x03, 0, 10, 0, 1, 0, 0],
                      mapping_new = Some fresh_mapping, reply_rc = 7\<rparr>]"
      and e' = "\<lparr>argc = 3, own_addr_arg = 5, context_created = True, header_length_got = 1,
                  connected = False, rts_set = True, rts_delay_set = True\<rparr>"
      and its' = "[]" and s' = initial_slave]
  by (simp add: main_def initialise_def loop_body_def request_at_def serve_request_def
      dispatch_def write_reg_def decoded_reg_addr_def decoded_reg_val_def MAX_REG_def
      initial_slave_def Let_def)

subsection \<open>Read holding registers and read input registers\<close>

text \<open>
  C8. The switch treats 0x03 and 0x04 in one branch: for every register address, value
  bytes, response structure and memory, the dispatcher's result for the one is its result
  for the other (the same bounds check, the same read of \<open>reg_map\<close>, the same exception
  code). Serving a request with the one function code makes the calls that serving it
  with the other makes, the request handed on apart, and the replies carry the same
  payload.
\<close>

theorem read_holding_and_read_input_alike:
  "dispatch 0x03 reg_addr reg_val mb_mapping s = dispatch 0x04 reg_addr reg_val mb_mapping s
   \<and> serve_request own_addr (req\<lparr>fc := 0x04\<rparr>) alloc rc s =
       map_sum id
         (\<lambda>(s', effs, status). (s', map (readdress (req\<lparr>fc := 0x04\<rparr>)) effs, status))
         (serve_request own_addr (req\<lparr>fc := 0x03\<rparr>) alloc rc s)
   \<and> (\<exists>payload.
         modbus_reply (req\<lparr>fc := 0x03\<rparr>) mb_mapping =
           Some (Read_response (slave_addr req) 0x03 payload) \<and>
         modbus_reply (req\<lparr>fc := 0x04\<rparr>) mb_mapping =
           Some (Read_response (slave_addr req) 0x04 payload))"
  by (auto simp add: dispatch_def serve_request_def modbus_reply_def readdress_def Let_def
      read_reg_def decoded_reg_addr_def decoded_reg_val_def split: option.splits sum.splits)

text \<open>A read of register 10, by either function code.\<close>

theorem read_holding_and_read_input_alike_witness:
  "dispatch 0x03 10 1 fresh_mapping initial_slave = dispatch 0x04 10 1 fresh_mapping initial_slave
   \<and> dispatch 0x04 10 1 fresh_mapping initial_slave =
       Inr (0, \<lparr>tab_registers = (replicate 32 0)[10 := 0]\<rparr>, initial_slave\<lparr>touched := [10]\<rparr>, [])"
  using read_holding_and_read_input_alike
    [where reg_addr = 10 and reg_val = 1 and mb_mapping = fresh_mapping and s = initial_slave
      and own_addr = 5 and alloc = "Some fresh_mapping" and rc = 7
      and req = "\<lparr>slave_addr = 5, fc = 0x03, reg_addr_hi = 0, reg_addr_lo = 10,
                   reg_val_hi = 0, reg_val_lo = 1\<rparr>"]
  by (simp add: dispatch_def read_reg_def initial_slave_def fresh_mapping_def MAX_REG_def)

subsection \<open>The server-failure exception\<close>

text \<open>
  C9. Once the bounds check has passed, \<open>read_reg\<close> and \<open>write_reg\<close> return 0. So in
  no run of \<^verbatim>\<open>main\<close>, whatever the startup, the turns of the loop and the memory, is
  the exception reply called with Slave or Server Failure, and no reply on the wire
  carries exception code 0x04.
\<close>

theorem server_failure_never_reported:
  "(0 \<le> a \<and> a < MAX_REG \<and> int (length (reg_map t)) = MAX_REG \<longrightarrow>
      read_reg a t = Inr (0, reg_map t ! nat a, t\<lparr>touched := touched t @ [a]\<rparr>) \<and>
      write_reg a v t =
        Inr (0, t\<lparr>reg_map := (reg_map t)[nat a := v], touched := touched t @ [a]\<rparr>))
   \<and> (main e its s = Inr (s', effs, status) \<longrightarrow>
        Call_reply_exception r MODBUS_EXCEPTION_SLAVE_OR_SERVER_FAILURE \<notin> set effs \<and>
        Some (Exception_response adr f 0x04) \<notin> set (on_wire effs))"
proof (intro conjI impI)
  assume "0 \<le> a \<and> a < MAX_REG \<and> int (length (reg_map t)) = MAX_REG"
  then show "read_reg a t = Inr (0, reg_map t ! nat a, t\<lparr>touched := touched t @ [a]\<rparr>)"
    and "write_reg a v t =
        Inr (0, t\<lparr>reg_map := (reg_map t)[nat a := v], touched := touched t @ [a]\<rparr>)"
    by (simp_all add: read_reg_def write_reg_def)
next
  assume run: "main e its s = Inr (s', effs, status)"
  have codes: "c = 1 \<or> c = 2" if "Call_reply_exception q c \<in> set effs" for q c
    using main_exception_code [OF run that]
    by (simp add: MODBUS_EXCEPTION_ILLEGAL_FUNCTION_def MODBUS_EXCEPTION_ILLEGAL_DATA_ADDRESS_def)
  show "Call_reply_exception r MODBUS_EXCEPTION_SLAVE_OR_SERVER_FAILURE \<notin> set effs"
    using codes [of r MODBUS_EXCEPTION_SLAVE_OR_SERVER_FAILURE]
    by (auto simp add: MODBUS_EXCEPTION_SLAVE_OR_SERVER_FAILURE_def)
  show "Some (Exception_response adr f 0x04) \<notin> set (on_wire effs)"
  proof
    assume "Some (Exception_response adr f 0x04) \<in> set (on_wire effs)"
    then obtain q c where "Call_reply_exception q c \<in> set effs" and "(0x04 :: uint8_t) = ucast c"
      by (blast dest: on_wire_exception)
    with codes [of q c] show False by auto
  qed
qed

text \<open>
  A run that ends in an exception reply: the read of register 40 of scenario C, received
  as a frame by the main loop.
\<close>

theorem server_failure_never_reported_witness:
  "read_reg 10 initial_slave = Inr (0, 0, initial_slave\<lparr>touched := [10]\<rparr>)
   \<and> write_reg 10 7 initial_slave =
       Inr (0, initial_slave\<lparr>reg_map := (replicate 32 0)[10 := 7], touched := [10]\<rparr>)
   \<and> main \<lparr>argc = 3, own_addr_arg = 5, context_created = True, header_length_got = 1,
            connected = True, rts_set = True, rts_delay_set = True\<rparr>
        [\<lparr>received = Some [5, 0x03, 0, 40, 0, 1, 0, 0], mapping_new = Some fresh_mapping,
          reply_rc = 5\<rparr>]
        initial_slave
      = Inr (initial_slave,
             [Call_reply_exception
                \<lparr>slave_addr = 5, fc = 0x03, reg_addr_hi = 0, reg_addr_lo = 40,
                 reg_val_hi = 0, reg_val_lo = 1\<rparr> 0x02,
              Call_mapping_free], None)
   \<and> Call_reply_exception
        \<lparr>slave_addr = 5, fc = 0x03, reg_addr_hi = 0, reg_addr_lo = 40,
         reg_val_hi = 0, reg_val_lo = 1\<rparr> 0x04
       \<notin> set [Call_reply_exception
                 \<lparr>slave_addr = 5, fc = 0x03, reg_addr_hi = 0, reg_addr_lo = 40,
                  reg_val_hi = 0, reg_val_lo = 1\<rparr> 0x02,
               Call_mapping_free]
   \<and> Some (Exception_response 5 0x83 0x04)
       \<notin> set (on_wire
                [Call_reply_exception
                   \<lparr>slave_addr = 5, fc = 0x03, reg_addr_hi = 0, reg_addr_lo = 40,
                    reg_val_hi = 0, reg_val_lo = 1\<rparr> 0x02,
                 Call_mapping_free])"
  using server_failure_never_reported
    [where a = 10 and t = initial_slave and v = 7
      and e = "\<lparr>argc = 3, own_addr_arg = 5, context_created = True, header_length_got = 1,
                 connected = True, rts_set = True, rts_delay_set = True\<rparr>"
      and its = "[\<lparr>received = Some [5, 0x03, 0, 40, 0, 1, 0, 0],
                    mapping_new = Some fresh_mapping, reply_rc = 5\<rparr>]"
      and s = initial_slave and s' = initial_slave and status = None
      and effs = "[Call_reply_exception
                     \<lparr>slave_addr = 5, fc = 0x03, reg_addr_hi = 0, reg_addr_lo = 40,
                      reg_val_hi = 0, reg_val_lo = 1\<rparr> 0x02,
                   Call_mapping_free]"
      and r = "\<lparr>slave_addr = 5, fc = 0x03, reg_addr_hi = 0, reg_addr_lo = 40,
                 reg_val_hi = 0, reg_val_lo = 1\<rparr>"
      and adr = 5 and f = "0x83"]
  by (simp add: initial_slave_def MAX_REG_def main_def initialise_def loop_body_def
      request_at_def serve_request_def dispatch_def decoded_reg_addr_def Let_def
      MODBUS_EXCEPTION_ILLEGAL_DATA_ADDRESS_def MODBUS_EXCEPTION_SLAVE_OR_SERVER_FAILURE_def
      read_reg_def write_reg_def)

subsection \<open>The count field of a read\<close>

text \<open>
  C10. For a read (0x03 or 0x04) the dispatcher tests the register address against
  \<open>MAX_REG\<close> and nothing else: its result is the same for any two values of the count
  field, it is the read of register \<open>a\<close> whenever \<open>a < MAX_REG\<close> and Illegal Data
  Address otherwise, and serving the request with other count bytes makes the same calls,
  the request handed on apart. In particular a read from \<open>a < MAX_REG\<close> takes the read
  path also when \<open>a\<close> plus the count is beyond \<open>MAX_REG\<close>.
\<close>

theorem read_validation_ignores_count:
  assumes "fc req = 0x03 \<or> fc req = 0x04"
    and "int (length (reg_map s)) = MAX_REG"
    and "int (length (tab_registers mb_mapping)) = MAX_REG"
  shows "dispatch (uint (fc req)) (decoded_reg_addr req) count mb_mapping s =
           dispatch (uint (fc req)) (decoded_reg_addr req) count' mb_mapping s
       \<and> dispatch (uint (fc req)) (decoded_reg_addr req) count mb_mapping s =
           (if decoded_reg_addr req < MAX_REG then
              Inr (0,
                   mb_mapping\<lparr>tab_registers := (tab_registers mb_mapping)
                      [nat (decoded_reg_addr req) := reg_map s ! nat (decoded_reg_addr req)]\<rparr>,
                   s\<lparr>touched := touched s @ [decoded_reg_addr req]\<rparr>, [])
            else Inr (MODBUS_EXCEPTION_ILLEGAL_DATA_ADDRESS, mb_mapping, s, []))
       \<and> serve_request own_addr (req\<lparr>reg_val_hi := hi, reg_val_lo := lo\<rparr>) alloc rc s =
           map_sum id
             (\<lambda>(s', effs, status).
                (s', map (readdress (req\<lparr>reg_val_hi := hi, reg_val_lo := lo\<rparr>)) effs, status))
             (serve_request own_addr req alloc rc s)"
  using assms decoded_reg_addr_nonneg [of req]
  by (auto simp add: dispatch_def serve_request_def readdress_def Let_def
      read_reg_def decoded_reg_addr_def MAX_REG_def split: option.splits sum.splits)

text \<open>Register 31 with a count of 5: 31 + 5 is beyond the table, and the read is served.\<close>

theorem read_validation_ignores_count_witness:
  "dispatch 3 31 5 fresh_mapping initial_slave = dispatch 3 31 1 fresh_mapping initial_slave
   \<and> MAX_REG < 31 + 5
   \<and> dispatch 3 31 5 fresh_mapping initial_slave =
       Inr (0, \<lparr>tab_registers = (replicate 32 0)[31 := 0]\<rparr>, initial_slave\<lparr>touched := [31]\<rparr>, [])"
  using read_validation_ignores_count
    [where req = "\<lparr>slave_addr = 5, fc = 0x03, reg_addr_hi = 0, reg_addr_lo = 31,
                   reg_val_hi = 0, reg_val_lo = 5\<rparr>"
      and s = initial_slave and mb_mapping = fresh_mapping and count = 5 and count' = 1
      and hi = 0 and lo = 1 and own_addr = 5 and alloc = "Some fresh_mapping" and rc = 7]
  by (auto simp add: initial_slave_def fresh_mapping_def MAX_REG_def decoded_reg_addr_def)

end
